theory Spec2Isabelle
  imports Main "HOL-Library.Sublist"
begin

section \<open>Values, promises and function objects\<close>

text \<open>
  The module \<^verbatim>\<open>src/webhook.ts\<close> routes a webhook payload to one callback of a table.
  The values it produces itself are a boolean (\<^verbatim>\<open>Promise.resolve(true)\<close>), a plain
  string (the rejection of the default case) and an \<^verbatim>\<open>Error\<close> object (thrown by the
  constructor). \<open>jsval\<close> is the type \<^verbatim>\<open>any\<close> restricted to the JavaScript values the
  claims need to tell apart; \<open>JError m\<close> is an \<^verbatim>\<open>Error\<close> object with message \<open>m\<close>.
\<close>

datatype jsval =
    JUndefined
  | JNull
  | JBool bool
  | JNum int
  | JNaN
  | JStr string
  | JError string

text \<open>
  JavaScript truthiness of the values above: \<^verbatim>\<open>undefined\<close>, \<^verbatim>\<open>null\<close>, \<^verbatim>\<open>false\<close>,
  zero, \<^verbatim>\<open>NaN\<close> and the empty string are falsy, and every other value is truthy
  (objects, hence errors, are truthy).
\<close>

fun truthy :: "jsval \<Rightarrow> bool" where
  "truthy JUndefined = False"
| "truthy JNull = False"
| "truthy (JBool b) = b"
| "truthy (JNum n) = (n \<noteq> 0)"
| "truthy JNaN = False"
| "truthy (JStr s) = (s \<noteq> [])"
| "truthy (JError m) = True"

text \<open>
  A \<^verbatim>\<open>Promise<any>\<close> is modelled by its fate: fulfilled with a value, rejected with a
  reason, or never settled. A call of a JavaScript function either throws synchronously
  (\<open>Inl\<close> of the thrown value) or returns (\<open>Inr\<close>); for a \<^verbatim>\<open>WebHookFunction\<close> the
  returned value is a promise.
\<close>

datatype promise =
    Fulfilled jsval
  | Rejected jsval
  | Pending

type_synonym completion = "jsval + promise"

text \<open>
  \<^verbatim>\<open>type WebHookFunction = (payload: IRazorWebHookPayload) => Promise<any>\<close>.
  The table stores references to function objects: either the module's own
  \<^verbatim>\<open>_mockAction\<close> or a function supplied by the host application, named by a number.
  What a host function does when called is given by the host (see \<open>call\<close> below).
\<close>

datatype WebHookFunction =
    MockAction
  | HostFn nat

section \<open>Data model\<close>

datatype EntityContain =
    Payment
  | Order
  | Refund
  | Dispute
  | Invoice
  | Subscription
  | Settlement
  | Virtual_account

text \<open>The members of the union type \<^verbatim>\<open>WebHookEvent\<close>, in the order of the source.\<close>

definition WebHookEvent :: "string list" where
  "WebHookEvent =
    [''order.paid'',
     ''payment.authorized'',
     ''payment.captured'',
     ''payment.failed'',
     ''refund.created'',
     ''payment.dispute.created'',
     ''payment.dispute.won'',
     ''payment.dispute.lost'',
     ''payment.dispute.closed'',
     ''invoice.partially_paid'',
     ''invoice.paid'',
     ''invoice.expired'',
     ''subscription.activated'',
     ''subscription.charged'',
     ''subscription.completed'',
     ''subscription.updated'',
     ''subscription.pending'',
     ''subscription.halted'',
     ''subscription.cancelled'',
     ''settlement.processed'',
     ''virtual_account.created'',
     ''virtual_account.credited'',
     ''virtual_account.closed'']"

text \<open>
  \<^verbatim>\<open>interface IActionHandler\<close>: one record per category, one field per sub-event.
  The field names are those of the source; where two categories share a field name it
  is written qualified (\<open>order_handlers.paid\<close>, \<open>invoice_handlers.paid\<close>).
\<close>

record order_handlers =
  paid :: WebHookFunction

record payment_handlers =
  authorized :: WebHookFunction
  captured :: WebHookFunction
  failed :: WebHookFunction

record refund_handlers =
  created :: WebHookFunction

record dispute_handlers =
  created :: WebHookFunction
  won :: WebHookFunction
  lost :: WebHookFunction
  closed :: WebHookFunction

record invoice_handlers =
  partially_paid :: WebHookFunction
  paid :: WebHookFunction
  expired :: WebHookFunction

record subscription_handlers =
  activated :: WebHookFunction
  charged :: WebHookFunction
  completed :: WebHookFunction
  updated :: WebHookFunction
  pending :: WebHookFunction
  halted :: WebHookFunction
  cancelled :: WebHookFunction

record settlement_handlers =
  processed :: WebHookFunction

record virtual_account_handlers =
  created :: WebHookFunction
  credited :: WebHookFunction
  closed :: WebHookFunction

record IActionHandler =
  order :: order_handlers
  payment :: payment_handlers
  refund :: refund_handlers
  dispute :: dispute_handlers
  invoice :: invoice_handlers
  subscription :: subscription_handlers
  settlement :: settlement_handlers
  virtual_account :: virtual_account_handlers

text \<open>
  \<^verbatim>\<open>interface IRazorWebHookPayload\<close>. The field \<open>event\<close> is declared with the union type
  \<^verbatim>\<open>WebHookEvent\<close>, which is erased at run time: the payload is deserialised JSON, so
  the model lets \<open>event\<close> be any string, as the default case of \<^verbatim>\<open>execute\<close> expects.
\<close>

record IRazorWebHookPayload =
  entity :: string
  account_id :: string
  event :: string
  contains :: "EntityContain list"
  payload :: "(string \<times> jsval) list"
  created_at :: int

text \<open>
  \<^verbatim>\<open>class RazorWebhookHandler\<close> has the one private field \<^verbatim>\<open>_handler\<close> (here
  \<open>rh_handler\<close>); \<^verbatim>\<open>class RazorWebhook\<close> has the private fields \<^verbatim>\<open>_payload\<close> and
  \<^verbatim>\<open>_handler\<close> (here \<open>wh_payload\<close> and \<open>wh_handler\<close>). The field \<^verbatim>\<open>_payload\<close> is
  declared as \<^verbatim>\<open>IRazorWebHookPayload\<close>, but the constructor stores whatever value passes
  its guard, so the record leaves the type \<open>'p\<close> of the field open:
  \<open>IRazorWebHookPayload RazorWebhook\<close> is a dispatcher that holds a payload object, and the
  constructor returns a dispatcher that holds its argument.
\<close>

record RazorWebhookHandler =
  rh_handler :: IActionHandler

record 'p RazorWebhook =
  wh_payload :: 'p
  wh_handler :: RazorWebhookHandler

section \<open>The registry: \<^verbatim>\<open>RazorWebhookHandler\<close>\<close>

text \<open>The field initialiser of \<^verbatim>\<open>_handler\<close>: every entry is \<^verbatim>\<open>_mockAction\<close>.\<close>

definition new_RazorWebhookHandler :: RazorWebhookHandler where
  "new_RazorWebhookHandler =
    \<lparr>rh_handler =
      \<lparr>order = \<lparr>order_handlers.paid = MockAction\<rparr>,
       payment = \<lparr>authorized = MockAction, captured = MockAction, failed = MockAction\<rparr>,
       refund = \<lparr>refund_handlers.created = MockAction\<rparr>,
       dispute = \<lparr>dispute_handlers.created = MockAction, won = MockAction,
                  lost = MockAction, dispute_handlers.closed = MockAction\<rparr>,
       invoice = \<lparr>partially_paid = MockAction, invoice_handlers.paid = MockAction,
                  expired = MockAction\<rparr>,
       subscription = \<lparr>activated = MockAction, charged = MockAction, completed = MockAction,
                       updated = MockAction, pending = MockAction, halted = MockAction,
                       cancelled = MockAction\<rparr>,
       settlement = \<lparr>processed = MockAction\<rparr>,
       virtual_account = \<lparr>virtual_account_handlers.created = MockAction,
                          credited = MockAction,
                          virtual_account_handlers.closed = MockAction\<rparr>\<rparr>\<rparr>"

text \<open>\<^verbatim>\<open>get handler()\<close> of \<^verbatim>\<open>RazorWebhookHandler\<close>.\<close>

definition RazorWebhookHandler_handler :: "RazorWebhookHandler \<Rightarrow> IActionHandler" where
  "RazorWebhookHandler_handler this = rh_handler this"

text \<open>
  The setters. Each assigns one field of one category of \<^verbatim>\<open>this._handler\<close> in place;
  the model returns the updated object.
\<close>

definition orderPaid :: "WebHookFunction \<Rightarrow> RazorWebhookHandler \<Rightarrow> RazorWebhookHandler" where
  "orderPaid fn this =
    this\<lparr>rh_handler := (rh_handler this)
      \<lparr>order := (order (rh_handler this))\<lparr>order_handlers.paid := fn\<rparr>\<rparr>\<rparr>"

definition refundCreated :: "WebHookFunction \<Rightarrow> RazorWebhookHandler \<Rightarrow> RazorWebhookHandler" where
  "refundCreated fn this =
    this\<lparr>rh_handler := (rh_handler this)
      \<lparr>refund := (refund (rh_handler this))\<lparr>refund_handlers.created := fn\<rparr>\<rparr>\<rparr>"

definition paymentAuthorized :: "WebHookFunction \<Rightarrow> RazorWebhookHandler \<Rightarrow> RazorWebhookHandler" where
  "paymentAuthorized fn this =
    this\<lparr>rh_handler := (rh_handler this)
      \<lparr>payment := (payment (rh_handler this))\<lparr>authorized := fn\<rparr>\<rparr>\<rparr>"

definition paymentCaptured :: "WebHookFunction \<Rightarrow> RazorWebhookHandler \<Rightarrow> RazorWebhookHandler" where
  "paymentCaptured fn this =
    this\<lparr>rh_handler := (rh_handler this)
      \<lparr>payment := (payment (rh_handler this))\<lparr>captured := fn\<rparr>\<rparr>\<rparr>"

definition paymentFailed :: "WebHookFunction \<Rightarrow> RazorWebhookHandler \<Rightarrow> RazorWebhookHandler" where
  "paymentFailed fn this =
    this\<lparr>rh_handler := (rh_handler this)
      \<lparr>payment := (payment (rh_handler this))\<lparr>failed := fn\<rparr>\<rparr>\<rparr>"

definition disputeCreated :: "WebHookFunction \<Rightarrow> RazorWebhookHandler \<Rightarrow> RazorWebhookHandler" where
  "disputeCreated fn this =
    this\<lparr>rh_handler := (rh_handler this)
      \<lparr>dispute := (dispute (rh_handler this))\<lparr>dispute_handlers.created := fn\<rparr>\<rparr>\<rparr>"

definition disputeWon :: "WebHookFunction \<Rightarrow> RazorWebhookHandler \<Rightarrow> RazorWebhookHandler" where
  "disputeWon fn this =
    this\<lparr>rh_handler := (rh_handler this)
      \<lparr>dispute := (dispute (rh_handler this))\<lparr>won := fn\<rparr>\<rparr>\<rparr>"

definition disputeLost :: "WebHookFunction \<Rightarrow> RazorWebhookHandler \<Rightarrow> RazorWebhookHandler" where
  "disputeLost fn this =
    this\<lparr>rh_handler := (rh_handler this)
      \<lparr>dispute := (dispute (rh_handler this))\<lparr>lost := fn\<rparr>\<rparr>\<rparr>"

definition disputeClosed :: "WebHookFunction \<Rightarrow> RazorWebhookHandler \<Rightarrow> RazorWebhookHandler" where
  "disputeClosed fn this =
    this\<lparr>rh_handler := (rh_handler this)
      \<lparr>dispute := (dispute (rh_handler this))\<lparr>dispute_handlers.closed := fn\<rparr>\<rparr>\<rparr>"

definition invoicePartiallyPaid :: "WebHookFunction \<Rightarrow> RazorWebhookHandler \<Rightarrow> RazorWebhookHandler" where
  "invoicePartiallyPaid fn this =
    this\<lparr>rh_handler := (rh_handler this)
      \<lparr>invoice := (invoice (rh_handler this))\<lparr>partially_paid := fn\<rparr>\<rparr>\<rparr>"

definition invoicePaid :: "WebHookFunction \<Rightarrow> RazorWebhookHandler \<Rightarrow> RazorWebhookHandler" where
  "invoicePaid fn this =
    this\<lparr>rh_handler := (rh_handler this)
      \<lparr>invoice := (invoice (rh_handler this))\<lparr>invoice_handlers.paid := fn\<rparr>\<rparr>\<rparr>"

definition invoiceExpired :: "WebHookFunction \<Rightarrow> RazorWebhookHandler \<Rightarrow> RazorWebhookHandler" where
  "invoiceExpired fn this =
    this\<lparr>rh_handler := (rh_handler this)
      \<lparr>invoice := (invoice (rh_handler this))\<lparr>expired := fn\<rparr>\<rparr>\<rparr>"

definition subscriptionActivated :: "WebHookFunction \<Rightarrow> RazorWebhookHandler \<Rightarrow> RazorWebhookHandler" where
  "subscriptionActivated fn this =
    this\<lparr>rh_handler := (rh_handler this)
      \<lparr>subscription := (subscription (rh_handler this))\<lparr>activated := fn\<rparr>\<rparr>\<rparr>"

definition subscriptionCharged :: "WebHookFunction \<Rightarrow> RazorWebhookHandler \<Rightarrow> RazorWebhookHandler" where
  "subscriptionCharged fn this =
    this\<lparr>rh_handler := (rh_handler this)
      \<lparr>subscription := (subscription (rh_handler this))\<lparr>charged := fn\<rparr>\<rparr>\<rparr>"

definition subscriptionCompleted :: "WebHookFunction \<Rightarrow> RazorWebhookHandler \<Rightarrow> RazorWebhookHandler" where
  "subscriptionCompleted fn this =
    this\<lparr>rh_handler := (rh_handler this)
      \<lparr>subscription := (subscription (rh_handler this))\<lparr>completed := fn\<rparr>\<rparr>\<rparr>"

definition subscriptionUpdated :: "WebHookFunction \<Rightarrow> RazorWebhookHandler \<Rightarrow> RazorWebhookHandler" where
  "subscriptionUpdated fn this =
    this\<lparr>rh_handler := (rh_handler this)
      \<lparr>subscription := (subscription (rh_handler this))\<lparr>updated := fn\<rparr>\<rparr>\<rparr>"

definition subscriptionPending :: "WebHookFunction \<Rightarrow> RazorWebhookHandler \<Rightarrow> RazorWebhookHandler" where
  "subscriptionPending fn this =
    this\<lparr>rh_handler := (rh_handler this)
      \<lparr>subscription := (subscription (rh_handler this))\<lparr>pending := fn\<rparr>\<rparr>\<rparr>"

definition subscriptionHalted :: "WebHookFunction \<Rightarrow> RazorWebhookHandler \<Rightarrow> RazorWebhookHandler" where
  "subscriptionHalted fn this =
    this\<lparr>rh_handler := (rh_handler this)
      \<lparr>subscription := (subscription (rh_handler this))\<lparr>halted := fn\<rparr>\<rparr>\<rparr>"

definition subscriptionCancelled :: "WebHookFunction \<Rightarrow> RazorWebhookHandler \<Rightarrow> RazorWebhookHandler" where
  "subscriptionCancelled fn this =
    this\<lparr>rh_handler := (rh_handler this)
      \<lparr>subscription := (subscription (rh_handler this))\<lparr>cancelled := fn\<rparr>\<rparr>\<rparr>"

definition settlementProcessed :: "WebHookFunction \<Rightarrow> RazorWebhookHandler \<Rightarrow> RazorWebhookHandler" where
  "settlementProcessed fn this =
    this\<lparr>rh_handler := (rh_handler this)
      \<lparr>settlement := (settlement (rh_handler this))\<lparr>processed := fn\<rparr>\<rparr>\<rparr>"

definition virtualAccountCreated :: "WebHookFunction \<Rightarrow> RazorWebhookHandler \<Rightarrow> RazorWebhookHandler" where
  "virtualAccountCreated fn this =
    this\<lparr>rh_handler := (rh_handler this)
      \<lparr>virtual_account := (virtual_account (rh_handler this))
        \<lparr>virtual_account_handlers.created := fn\<rparr>\<rparr>\<rparr>"

definition virtualAccountCredited :: "WebHookFunction \<Rightarrow> RazorWebhookHandler \<Rightarrow> RazorWebhookHandler" where
  "virtualAccountCredited fn this =
    this\<lparr>rh_handler := (rh_handler this)
      \<lparr>virtual_account := (virtual_account (rh_handler this))\<lparr>credited := fn\<rparr>\<rparr>\<rparr>"

definition virtualAccountClosed :: "WebHookFunction \<Rightarrow> RazorWebhookHandler \<Rightarrow> RazorWebhookHandler" where
  "virtualAccountClosed fn this =
    this\<lparr>rh_handler := (rh_handler this)
      \<lparr>virtual_account := (virtual_account (rh_handler this))
        \<lparr>virtual_account_handlers.closed := fn\<rparr>\<rparr>\<rparr>"

text \<open>
  The setters of the class in the order of the source, each with the event named in its
  documentation comment (\<^verbatim>\<open>SET Event Handle For: ...\<close>) and the entry of the table
  that its body assigns.
\<close>

type_synonym setter = "WebHookFunction \<Rightarrow> RazorWebhookHandler \<Rightarrow> RazorWebhookHandler"

type_synonym entry = "IActionHandler \<Rightarrow> WebHookFunction"

definition setters :: "(string \<times> setter \<times> entry) list" where
  "setters =
    [(''order.paid'', orderPaid, \<lambda>h. order_handlers.paid (order h)),
     (''refund.created'', refundCreated, \<lambda>h. refund_handlers.created (refund h)),
     (''payment.authorized'', paymentAuthorized, \<lambda>h. authorized (payment h)),
     (''payment.captured'', paymentCaptured, \<lambda>h. captured (payment h)),
     (''payment.failed'', paymentFailed, \<lambda>h. failed (payment h)),
     (''payment.dispute.created'', disputeCreated, \<lambda>h. dispute_handlers.created (dispute h)),
     (''payment.dispute.won'', disputeWon, \<lambda>h. won (dispute h)),
     (''payment.dispute.lost'', disputeLost, \<lambda>h. lost (dispute h)),
     (''payment.dispute.closed'', disputeClosed, \<lambda>h. dispute_handlers.closed (dispute h)),
     (''invoice.partially_paid'', invoicePartiallyPaid, \<lambda>h. partially_paid (invoice h)),
     (''invoice.paid'', invoicePaid, \<lambda>h. invoice_handlers.paid (invoice h)),
     (''invoice.expired'', invoiceExpired, \<lambda>h. expired (invoice h)),
     (''subscription.activated'', subscriptionActivated, \<lambda>h. activated (subscription h)),
     (''subscription.charged'', subscriptionCharged, \<lambda>h. charged (subscription h)),
     (''subscription.completed'', subscriptionCompleted, \<lambda>h. completed (subscription h)),
     (''subscription.updated'', subscriptionUpdated, \<lambda>h. updated (subscription h)),
     (''subscription.pending'', subscriptionPending, \<lambda>h. pending (subscription h)),
     (''subscription.halted'', subscriptionHalted, \<lambda>h. halted (subscription h)),
     (''subscription.cancelled'', subscriptionCancelled, \<lambda>h. cancelled (subscription h)),
     (''settlement.processed'', settlementProcessed, \<lambda>h. processed (settlement h)),
     (''virtual_account.created'', virtualAccountCreated,
        \<lambda>h. virtual_account_handlers.created (virtual_account h)),
     (''virtual_account.credited'', virtualAccountCredited, \<lambda>h. credited (virtual_account h)),
     (''virtual_account.closed'', virtualAccountClosed,
        \<lambda>h. virtual_account_handlers.closed (virtual_account h))]"

text \<open>The callbacks held by a table, entry by entry in the order of the setters.\<close>

definition entries :: "IActionHandler \<Rightarrow> WebHookFunction list" where
  "entries h = map (\<lambda>(ev, st, ent). ent h) setters"

section \<open>The dispatcher: \<^verbatim>\<open>RazorWebhook\<close>\<close>

text \<open>
  The argument of the constructor is declared as \<^verbatim>\<open>IRazorWebHookPayload\<close>. The
  declaration is erased at run time, and the body tests the argument with
  \<^verbatim>\<open>!payload\<close>, which is defined for every JavaScript value: the argument is a payload
  object or any other value (\<^verbatim>\<open>undefined\<close> when it is absent). An object is truthy
  whatever its fields hold.
\<close>

datatype constructor_arg =
    ArgValue jsval
  | ArgObject IRazorWebHookPayload

fun arg_truthy :: "constructor_arg \<Rightarrow> bool" where
  "arg_truthy (ArgValue v) = truthy v"
| "arg_truthy (ArgObject p) = True"

text \<open>
  \<^verbatim>\<open>constructor(payload)\<close>: throws \<^verbatim>\<open>new Error("`payload` is mandatory")\<close> (\<open>Inl\<close>), or
  stores the argument, creates a registry and returns the new object (\<open>Inr\<close>).
\<close>

definition new_RazorWebhook :: "constructor_arg \<Rightarrow> jsval + constructor_arg RazorWebhook" where
  "new_RazorWebhook arg =
    (if \<not> arg_truthy arg then Inl (JError ''`payload` is mandatory'')
     else Inr \<lparr>wh_payload = arg, wh_handler = new_RazorWebhookHandler\<rparr>)"

text \<open>\<^verbatim>\<open>get payload()\<close> and \<^verbatim>\<open>get handler()\<close> of \<^verbatim>\<open>RazorWebhook\<close>.\<close>

definition RazorWebhook_payload :: "'p RazorWebhook \<Rightarrow> 'p" where
  "RazorWebhook_payload this = wh_payload this"

definition RazorWebhook_handler :: "'p RazorWebhook \<Rightarrow> RazorWebhookHandler" where
  "RazorWebhook_handler this = wh_handler this"

section \<open>Calls and the program state\<close>

text \<open>
  A callback is arbitrary host code: it may change the host's own state, and, because
  it can hold references to the dispatcher and receives the payload object itself, it
  may also assign fields of the payload and of the handler table. The state that a call
  sees and changes is therefore the dispatcher object (one that holds a payload object)
  together with the host's state \<open>'w\<close>. A host function takes the payload it is called with and the state, and gives
  its completion and the new state; \<open>fns k\<close> is the behaviour of the host function
  \<open>HostFn k\<close>.
\<close>

record 'w world =
  webhook :: "IRazorWebHookPayload RazorWebhook"
  host :: 'w

type_synonym 'w behaviour = "IRazorWebHookPayload \<Rightarrow> 'w world \<Rightarrow> completion \<times> 'w world"

text \<open>\<^verbatim>\<open>function _mockAction(payload) { return Promise.resolve(true); }\<close>\<close>

definition mockAction :: "'w behaviour" where
  "mockAction p w = (Inr (Fulfilled (JBool True)), w)"

fun call :: "(nat \<Rightarrow> 'w behaviour) \<Rightarrow> WebHookFunction \<Rightarrow> 'w behaviour" where
  "call fns MockAction = mockAction"
| "call fns (HostFn k) = fns k"

text \<open>
  \<^verbatim>\<open>execute()\<close>, on the dispatcher of the state. The \<^verbatim>\<open>switch\<close> compares
  \<^verbatim>\<open>this._payload.event\<close> with each case label in turn by strict equality.
\<close>

definition execute :: "(nat \<Rightarrow> 'w behaviour) \<Rightarrow> 'w world \<Rightarrow> completion \<times> 'w world" where
  "execute fns w =
    (let pl = wh_payload (webhook w);
         handler = RazorWebhookHandler_handler (wh_handler (webhook w))
     in
       if event (wh_payload (webhook w)) = ''order.paid'' then
         call fns (order_handlers.paid (order handler)) pl w

       else if event (wh_payload (webhook w)) = ''payment.authorized'' then
         call fns (authorized (payment handler)) pl w
       else if event (wh_payload (webhook w)) = ''payment.captured'' then
         call fns (captured (payment handler)) pl w
       else if event (wh_payload (webhook w)) = ''payment.failed'' then
         call fns (failed (payment handler)) pl w

       else if event (wh_payload (webhook w)) = ''refund.created'' then
         call fns (refund_handlers.created (refund handler)) pl w

       else if event (wh_payload (webhook w)) = ''payment.dispute.created'' then
         call fns (dispute_handlers.created (dispute handler)) pl w
       else if event (wh_payload (webhook w)) = ''payment.dispute.won'' then
         call fns (won (dispute handler)) pl w
       else if event (wh_payload (webhook w)) = ''payment.dispute.lost'' then
         call fns (lost (dispute handler)) pl w
       else if event (wh_payload (webhook w)) = ''payment.dispute.closed'' then
         call fns (dispute_handlers.closed (dispute handler)) pl w

       else if event (wh_payload (webhook w)) = ''invoice.partially_paid'' then
         call fns (partially_paid (invoice handler)) pl w
       else if event (wh_payload (webhook w)) = ''invoice.paid'' then
         call fns (invoice_handlers.paid (invoice handler)) pl w
       else if event (wh_payload (webhook w)) = ''invoice.expired'' then
         call fns (expired (invoice handler)) pl w

       else if event (wh_payload (webhook w)) = ''subscription.activated'' then
         call fns (activated (subscription handler)) pl w
       else if event (wh_payload (webhook w)) = ''subscription.charged'' then
         call fns (charged (subscription handler)) pl w
       else if event (wh_payload (webhook w)) = ''subscription.completed'' then
         call fns (completed (subscription handler)) pl w
       else if event (wh_payload (webhook w)) = ''subscription.updated'' then
         call fns (updated (subscription handler)) pl w
       else if event (wh_payload (webhook w)) = ''subscription.pending'' then
         call fns (pending (subscription handler)) pl w
       else if event (wh_payload (webhook w)) = ''subscription.halted'' then
         call fns (halted (subscription handler)) pl w
       else if event (wh_payload (webhook w)) = ''subscription.cancelled'' then
         call fns (cancelled (subscription handler)) pl w

       else if event (wh_payload (webhook w)) = ''settlement.processed'' then
         call fns (processed (settlement handler)) pl w

       else if event (wh_payload (webhook w)) = ''virtual_account.created'' then
         call fns (virtual_account_handlers.created (virtual_account handler)) pl w
       else if event (wh_payload (webhook w)) = ''virtual_account.credited'' then
         call fns (credited (virtual_account handler)) pl w
       else if event (wh_payload (webhook w)) = ''virtual_account.closed'' then
         call fns (virtual_account_handlers.closed (virtual_account handler)) pl w

       else
         (Inr (Rejected
            (JStr ''Payload event is currently isn't supported by RazorWebhook class.'')), w))"

text \<open>
  The host's statement \<^verbatim>\<open>webhook.handler.<setter> = fn\<close>: the getter of
  \<^verbatim>\<open>RazorWebhook\<close> followed by a setter of its registry.
\<close>

definition register :: "setter \<Rightarrow> WebHookFunction \<Rightarrow> 'w world \<Rightarrow> 'w world" where
  "register setter fn w =
    w\<lparr>webhook := (webhook w)\<lparr>wh_handler := setter fn (RazorWebhook_handler (webhook w))\<rparr>\<rparr>"

section \<open>A host application\<close>

text \<open>
  A host used to run the definitions on concrete inputs. Its state is the list of the
  host functions called so far. Function 0 throws, an odd function returns a rejected
  promise, and any other function resolves to the value stored under \<^verbatim>\<open>"payment"\<close>
  in the body of the payload it was called with.
\<close>

definition example_host :: "nat \<Rightarrow> (nat list) behaviour" where
  "example_host k p w =
    (if k = 0 then Inl (JError ''thrown by the host'')
     else if odd k then Inr (Rejected (JError ''rejected by the host''))
     else Inr (Fulfilled (case map_of (payload p) ''payment'' of
                            None \<Rightarrow> JUndefined | Some v \<Rightarrow> v)),
     w\<lparr>host := host w @ [k]\<rparr>)"

definition example_payload :: "string \<Rightarrow> IRazorWebHookPayload" where
  "example_payload ev =
    \<lparr>entity = ''event'', account_id = ''acc_1'', event = ev, contains = [Payment],
     payload = [(''payment'', JStr ''pay_1'')], created_at = 1700000000\<rparr>"

text \<open>A fresh dispatcher for a payload of the given event type, in a host that has called nothing.\<close>

definition example_world :: "string \<Rightarrow> (nat list) world" where
  "example_world ev =
    \<lparr>webhook = \<lparr>wh_payload = example_payload ev, wh_handler = new_RazorWebhookHandler\<rparr>,
     host = []\<rparr>"

text \<open>
  The registry after every setter has been called once, the \<open>i\<close>-th setter of the class
  with the host function \<open>i\<close>.
\<close>

fun register_numbered :: "nat \<Rightarrow> (string \<times> setter \<times> entry) list \<Rightarrow> RazorWebhookHandler \<Rightarrow> RazorWebhookHandler" where
  "register_numbered i [] this = this"
| "register_numbered i ((ev, st, ent) # rest) this = register_numbered (Suc i) rest (st (HostFn i) this)"

definition numbered_registry :: RazorWebhookHandler where
  "numbered_registry = register_numbered 0 setters new_RazorWebhookHandler"

text \<open>
  A dispatcher for a \<^verbatim>\<open>payment.captured\<close> payload on which the host has registered
  function 3 for \<^verbatim>\<open>payment.failed\<close> and function 4 for \<^verbatim>\<open>payment.captured\<close>.
\<close>

definition captured_world :: "(nat list) world" where
  "captured_world =
    register paymentCaptured (HostFn 4)
      (register paymentFailed (HostFn 3) (example_world ''payment.captured''))"

text \<open>
  A host whose functions do assign to the dispatcher they are given: each one renames the
  event of the payload and replaces the \<^verbatim>\<open>order.paid\<close> entry of the table.
\<close>

definition meddling_host :: "nat \<Rightarrow> (nat list) behaviour" where
  "meddling_host k p w =
    (Inr (Fulfilled JUndefined),
     w\<lparr>webhook := (webhook w)
         \<lparr>wh_payload := (wh_payload (webhook w))\<lparr>event := ''order.paid''\<rparr>,
          wh_handler := orderPaid (HostFn (Suc k)) (wh_handler (webhook w))\<rparr>\<rparr>)"

text \<open>
  A dispatcher for a \<^verbatim>\<open>payment.dispute.won\<close> payload on which the host has registered
  function 8 with \<^verbatim>\<open>disputeWon\<close> and then function 6 with \<^verbatim>\<open>paymentCaptured\<close>.
\<close>

definition dispute_world :: "(nat list) world" where
  "dispute_world =
    register paymentCaptured (HostFn 6)
      (register disputeWon (HostFn 8) (example_world ''payment.dispute.won''))"

section \<open>Basic facts about the table and the dispatch\<close>

lemmas setter_defs =
  orderPaid_def refundCreated_def paymentAuthorized_def paymentCaptured_def
  paymentFailed_def disputeCreated_def disputeWon_def disputeLost_def disputeClosed_def
  invoicePartiallyPaid_def invoicePaid_def invoiceExpired_def subscriptionActivated_def
  subscriptionCharged_def subscriptionCompleted_def subscriptionUpdated_def
  subscriptionPending_def subscriptionHalted_def subscriptionCancelled_def
  settlementProcessed_def virtualAccountCreated_def virtualAccountCredited_def
  virtualAccountClosed_def

lemmas example_defs =
  example_world_def example_payload_def captured_world_def register_def
  RazorWebhookHandler_handler_def RazorWebhook_handler_def new_RazorWebhookHandler_def

text \<open>
  With an event of the list of setters in hand, \<^verbatim>\<open>execute\<close> is the call of the entry
  listed with it. The proof runs the \<^verbatim>\<open>switch\<close> once for each of the setters.
\<close>

lemma execute_entry:
  assumes "(ev, st, ent) \<in> set setters" and "event (wh_payload (webhook w)) = ev"
  shows "execute fns w =
    call fns (ent (RazorWebhookHandler_handler (RazorWebhook_handler (webhook w))))
      (wh_payload (webhook w)) w"
  using assms
  apply (simp only: setters_def list.set insert_iff empty_iff prod.inject)
  apply (elim disjE conjE)
  apply (simp_all add: execute_def Let_def RazorWebhookHandler_handler_def RazorWebhook_handler_def)
  done

lemma known_event_setter:
  assumes "ev \<in> set WebHookEvent"
  shows "\<exists>st ent. map_of setters ev = Some (st, ent)"
  using assms
  apply (simp only: WebHookEvent_def list.set insert_iff empty_iff)
  apply (elim disjE)
  apply (simp_all add: setters_def)
  done

lemma known_event_entry:
  assumes "ev \<in> set WebHookEvent"
  obtains st ent where "(ev, st, ent) \<in> set setters"
  using known_event_setter [OF assms] by (blast dest: map_of_SomeD)

lemma execute_unsupported:
  assumes "event (wh_payload (webhook w)) \<notin> set WebHookEvent"
  shows "execute fns w =
    (Inr (Rejected (JStr ''Payload event is currently isn't supported by RazorWebhook class.'')), w)"
  using assms by (simp add: WebHookEvent_def execute_def)

lemma setter_own:
  assumes "(ev, st, ent) \<in> set setters"
  shows "ent (RazorWebhookHandler_handler (st f h)) = f"
  using assms
  apply (simp only: setters_def list.set insert_iff empty_iff prod.inject)
  apply (elim disjE conjE)
  apply (simp_all add: setter_defs RazorWebhookHandler_handler_def)
  done

lemma setter_overwrite:
  assumes "(ev, st, ent) \<in> set setters"
  shows "st g (st f h) = st g h"
  using assms
  apply (simp only: setters_def list.set insert_iff empty_iff prod.inject)
  apply (elim disjE conjE)
  apply (simp_all add: setter_defs)
  done

lemma register_payload [simp]:
  "wh_payload (webhook (register st f w)) = wh_payload (webhook w)"
  by (simp add: register_def)

lemma register_handler [simp]:
  "RazorWebhook_handler (webhook (register st f w)) = st f (RazorWebhook_handler (webhook w))"
  by (simp add: register_def RazorWebhook_handler_def)

lemma execute_after_register:
  assumes "(ev, st, ent) \<in> set setters" and "event (wh_payload (webhook w)) = ev"
  shows "execute fns (register st f w) = call fns f (wh_payload (webhook w)) (register st f w)"
proof -
  have "event (wh_payload (webhook (register st f w))) = ev"
    using assms(2) by simp
  with assms(1) have "execute fns (register st f w) =
    call fns (ent (RazorWebhookHandler_handler (RazorWebhook_handler (webhook (register st f w)))))
      (wh_payload (webhook (register st f w))) (register st f w)"
    by (rule execute_entry)
  then show ?thesis
    using setter_own [OF assms(1)] by simp
qed

section \<open>Dispatch of a known event\<close>

text \<open>
  Claim C1. For every event type \<open>ev\<close> of the enumeration, \<^verbatim>\<open>execute()\<close> on a dispatcher
  whose payload has that event type is one call of the callback that the table holds in
  the entry listed with \<open>ev\<close>: the callback receives the payload of the dispatcher as it
  is, and \<^verbatim>\<open>execute()\<close> returns the callback's completion (a fulfilled or a rejected
  promise, or what it threw) and leaves the state the callback left. Since this holds
  for every behaviour of the host functions, no second callback is called and nothing is
  added to or taken from the result.
\<close>

theorem execute_invokes_mapped_callback:
  assumes "ev \<in> set WebHookEvent" and "event (wh_payload (webhook w)) = ev"
  shows "\<exists>st ent. map_of setters ev = Some (st, ent) \<and>
    execute fns w =
      call fns (ent (RazorWebhookHandler_handler (RazorWebhook_handler (webhook w))))
        (wh_payload (webhook w)) w"
proof -
  from assms(1) obtain st ent where m: "map_of setters ev = Some (st, ent)"
    using known_event_setter by blast
  then have "(ev, st, ent) \<in> set setters"
    by (rule map_of_SomeD)
  then have "execute fns w =
      call fns (ent (RazorWebhookHandler_handler (RazorWebhook_handler (webhook w))))
        (wh_payload (webhook w)) w"
    using assms(2) by (rule execute_entry)
  with m show ?thesis by blast
qed

text \<open>
  On \<open>captured_world\<close> only host function 4 runs, although function 3 is registered too,
  and the value it resolves to comes back as it is.
\<close>

theorem execute_invokes_mapped_callback_witness:
  "''payment.captured'' \<in> set WebHookEvent \<and>
   event (wh_payload (webhook captured_world)) = ''payment.captured'' \<and>
   execute example_host captured_world =
     (Inr (Fulfilled (JStr ''pay_1'')), captured_world\<lparr>host := [4]\<rparr>)"
proof -
  have a: "''payment.captured'' \<in> set WebHookEvent"
    by (simp add: WebHookEvent_def)
  have b: "event (wh_payload (webhook captured_world)) = ''payment.captured''"
    by (simp add: example_defs)
  have c: "map_of setters ''payment.captured'' =
      Some (paymentCaptured, \<lambda>h. captured (payment h))"
    by (simp add: setters_def)
  from execute_invokes_mapped_callback [OF a b, of example_host]
  have "execute example_host captured_world =
      call example_host
        (captured (payment (RazorWebhookHandler_handler
          (RazorWebhook_handler (webhook captured_world)))))
        (wh_payload (webhook captured_world)) captured_world"
    by (simp add: c)
  then have "execute example_host captured_world =
      (Inr (Fulfilled (JStr ''pay_1'')), captured_world\<lparr>host := [4]\<rparr>)"
    by (simp add: example_defs paymentCaptured_def paymentFailed_def example_host_def)
  with a b show ?thesis by blast
qed

section \<open>Dispatch of an unknown event\<close>

lemma message_says_unsupported:
  "sublist ''isn't supported''
     ''Payload event is currently isn't supported by RazorWebhook class.''"
  by code_simp

lemma message_without_event:
  "\<not> sublist ''unknown.event''
     ''Payload event is currently isn't supported by RazorWebhook class.''"
  by code_simp

text \<open>
  Claim C2, as stated, asks for a rejection whose message identifies the unsupported
  event type. The dispatch of \<^verbatim>\<open>"unknown.event"\<close> is rejected with a message in which
  that event type does not occur, and the dispatch of \<^verbatim>\<open>"another.event"\<close> is rejected
  with the very same value: the event type cannot be told from the rejection.
\<close>

theorem unsupported_message_does_not_name_event:
  "''unknown.event'' \<notin> set WebHookEvent \<and>
   event (wh_payload (webhook (example_world ''unknown.event''))) = ''unknown.event'' \<and>
   execute example_host (example_world ''unknown.event'') =
     (Inr (Rejected (JStr ''Payload event is currently isn't supported by RazorWebhook class.'')),
      example_world ''unknown.event'') \<and>
   \<not> sublist ''unknown.event''
     ''Payload event is currently isn't supported by RazorWebhook class.'' \<and>
   ''another.event'' \<notin> set WebHookEvent \<and>
   fst (execute example_host (example_world ''another.event'')) =
     fst (execute example_host (example_world ''unknown.event''))"
proof -
  have a: "''unknown.event'' \<notin> set WebHookEvent" "''another.event'' \<notin> set WebHookEvent"
    by (simp_all add: WebHookEvent_def)
  have b: "event (wh_payload (webhook (example_world ev))) = ev" for ev
    by (simp add: example_defs)
  have c: "execute example_host (example_world ''unknown.event'') =
     (Inr (Rejected (JStr ''Payload event is currently isn't supported by RazorWebhook class.'')),
      example_world ''unknown.event'')"
    by (rule execute_unsupported) (simp add: b a)
  have d: "execute example_host (example_world ''another.event'') =
     (Inr (Rejected (JStr ''Payload event is currently isn't supported by RazorWebhook class.'')),
      example_world ''another.event'')"
    by (rule execute_unsupported) (simp add: b a)
  show ?thesis
    using a b c d message_without_event by simp
qed

text \<open>
  Claim C2, amended. For every event type outside the enumeration, \<^verbatim>\<open>execute()\<close> returns
  a rejected promise: it does not throw, it does not resolve, and it calls no callback
  (the state is as before). The reason of the rejection is a message saying that the
  payload event is not supported; it is one and the same message for every unsupported
  event type, whatever the host and the dispatcher.
\<close>

theorem execute_unsupported_rejects:
  assumes "event (wh_payload (webhook w)) \<notin> set WebHookEvent"
  shows "\<exists>m. execute fns w = (Inr (Rejected (JStr m)), w) \<and>
    sublist ''isn't supported'' m \<and>
    (\<forall>fns' w'. event (wh_payload (webhook (w' :: 'v world))) \<notin> set WebHookEvent \<longrightarrow>
       fst (execute fns' w') = Inr (Rejected (JStr m)))"
proof (intro exI conjI allI impI)
  show "execute fns w =
    (Inr (Rejected (JStr ''Payload event is currently isn't supported by RazorWebhook class.'')), w)"
    using assms by (rule execute_unsupported)
  show "sublist ''isn't supported''
     ''Payload event is currently isn't supported by RazorWebhook class.''"
    by (rule message_says_unsupported)
  show "fst (execute fns' w') =
    Inr (Rejected (JStr ''Payload event is currently isn't supported by RazorWebhook class.''))"
    if "event (wh_payload (webhook w')) \<notin> set WebHookEvent" for fns' and w' :: "'v world"
    using execute_unsupported [OF that] by simp
qed

theorem execute_unsupported_rejects_witness:
  "event (wh_payload (webhook (example_world ''payment.refunded''))) \<notin> set WebHookEvent \<and>
   (\<exists>m. execute example_host (example_world ''payment.refunded'') =
      (Inr (Rejected (JStr m)), example_world ''payment.refunded'') \<and>
      sublist ''isn't supported'' m \<and>
      fst (execute example_host (example_world ''refund.processed'')) = Inr (Rejected (JStr m)))"
proof -
  have a: "event (wh_payload (webhook (example_world ''payment.refunded''))) \<notin> set WebHookEvent"
    by (simp add: example_defs WebHookEvent_def)
  have b: "event (wh_payload (webhook (example_world ''refund.processed''))) \<notin> set WebHookEvent"
    by (simp add: example_defs WebHookEvent_def)
  from execute_unsupported_rejects [OF a, of example_host, where 'v = "nat list"]
  obtain m where m: "execute example_host (example_world ''payment.refunded'') =
      (Inr (Rejected (JStr m)), example_world ''payment.refunded'')"
      "sublist ''isn't supported'' m"
      "\<forall>fns' w'. event (wh_payload (webhook (w' :: (nat list) world))) \<notin> set WebHookEvent \<longrightarrow>
       fst (execute fns' w') = Inr (Rejected (JStr m))"
    by blast
  from m(3) b have "fst (execute example_host (example_world ''refund.processed'')) =
      Inr (Rejected (JStr m))"
    by blast
  with a m(1,2) show ?thesis by blast
qed

text \<open>
  Claim C8. For every event type outside the enumeration the promise returned by
  \<^verbatim>\<open>execute()\<close> is rejected with the plain string
  \<^verbatim>\<open>"Payload event is currently isn't supported by RazorWebhook class."\<close>: a string
  value and not an \<^verbatim>\<open>Error\<close> object, and a constant of the program, in which the event
  type of the payload plays no part.
\<close>

theorem unsupported_rejection_is_fixed_string:
  assumes "event (wh_payload (webhook w)) \<notin> set WebHookEvent"
  shows "fst (execute fns w) =
      Inr (Rejected (JStr ''Payload event is currently isn't supported by RazorWebhook class.'')) \<and>
    fst (execute fns w) \<noteq> Inr (Rejected (JError m))"
  using execute_unsupported [OF assms] by simp

theorem unsupported_rejection_is_fixed_string_witness:
  "event (wh_payload (webhook (example_world ''payment.dispute''))) \<notin> set WebHookEvent \<and>
   fst (execute example_host (example_world ''payment.dispute'')) =
      Inr (Rejected (JStr ''Payload event is currently isn't supported by RazorWebhook class.'')) \<and>
   fst (execute example_host (example_world ''payment.dispute'')) \<noteq>
      Inr (Rejected (JError ''Payload event is currently isn't supported by RazorWebhook class.''))"
proof -
  have a: "event (wh_payload (webhook (example_world ''payment.dispute''))) \<notin> set WebHookEvent"
    by (simp add: example_defs WebHookEvent_def)
  from unsupported_rejection_is_fixed_string [OF a] a show ?thesis by blast
qed

section \<open>The enumeration and the setters\<close>

lemma events_distinct: "distinct WebHookEvent"
  by (simp add: WebHookEvent_def)

lemma events_length: "length WebHookEvent = 23"
  by (simp add: WebHookEvent_def)

lemma setters_length: "length setters = 23"
  by (simp add: setters_def)

lemma setters_names_distinct: "distinct (map fst setters)"
  by (simp add: setters_def)

lemma setters_names: "set (map fst setters) = set WebHookEvent"
proof
  show "set (map fst setters) \<subseteq> set WebHookEvent"
    unfolding setters_def WebHookEvent_def by simp
  show "set WebHookEvent \<subseteq> set (map fst setters)"
    unfolding setters_def WebHookEvent_def by simp
qed

lemma numbered_entries:
  "entries (RazorWebhookHandler_handler numbered_registry) = map HostFn [0..<23]"
  by (simp add: entries_def numbered_registry_def setters_def setter_defs
      RazorWebhookHandler_handler_def new_RazorWebhookHandler_def upt_rec)

text \<open>A table is its entries: the entries written by the setters are all its fields.\<close>

lemma table_ext:
  assumes "entries h = entries h'"
  shows "h = h'"
proof -
  note e = assms [unfolded entries_def setters_def, simplified]
  have "order h = order h'" using e by simp
  moreover have "payment h = payment h'" using e by simp
  moreover have "refund h = refund h'" using e by simp
  moreover have "dispute h = dispute h'" using e by simp
  moreover have "invoice h = invoice h'" using e by simp
  moreover have "subscription h = subscription h'" using e by simp
  moreover have "settlement h = settlement h'" using e by simp
  moreover have "virtual_account h = virtual_account h'" using e by simp
  ultimately show ?thesis by simp
qed

text \<open>
  Claim C3, as stated, counts 22 events and 22 setters. The union type \<^verbatim>\<open>WebHookEvent\<close>
  has 23 members and the class has 23 setters; the 23rd of each is
  \<^verbatim>\<open>virtual_account.closed\<close>.
\<close>

theorem enumeration_is_not_22:
  "card (set WebHookEvent) \<noteq> 22 \<and> length setters \<noteq> 22 \<and>
   WebHookEvent ! 22 = ''virtual_account.closed'' \<and>
   fst (setters ! 22) = ''virtual_account.closed''"
proof -
  have "card (set WebHookEvent) = 23"
    using distinct_card [OF events_distinct] events_length by simp
  moreover have "WebHookEvent ! 22 = ''virtual_account.closed''"
    by (simp add: WebHookEvent_def)
  moreover have "fst (setters ! 22) = ''virtual_account.closed''"
    by (simp add: setters_def)
  ultimately show ?thesis
    using setters_length by simp
qed

text \<open>
  Claim C3, amended. The enumeration of known event types has exactly 23 members, and
  the registry has exactly 23 setters, one for each event type of the enumeration and
  one for each entry of the table: the setters are documented for pairwise different
  event types, which together are the enumeration; after every setter has been called
  with a callback of its own, the table holds all 23 callbacks, so no two setters write
  the same entry; and two tables that agree on the entries the setters write are equal,
  so no entry is without a setter.
\<close>

theorem enumeration_and_setters_23:
  "card (set WebHookEvent) = 23 \<and> length WebHookEvent = 23 \<and>
   length setters = 23 \<and>
   distinct (map fst setters) \<and>
   set (map fst setters) = set WebHookEvent \<and>
   entries (RazorWebhookHandler_handler numbered_registry) = map HostFn [0..<23] \<and>
   (entries h = entries h' \<longrightarrow> h = h')"
  using distinct_card [OF events_distinct] events_length setters_length setters_names_distinct
    setters_names numbered_entries table_ext [of h h']
  by simp

theorem enumeration_and_setters_23_witness:
  "entries (RazorWebhookHandler_handler (orderPaid MockAction new_RazorWebhookHandler)) =
     entries (RazorWebhookHandler_handler new_RazorWebhookHandler) \<and>
   RazorWebhookHandler_handler (orderPaid MockAction new_RazorWebhookHandler) =
     RazorWebhookHandler_handler new_RazorWebhookHandler \<and>
   card (set WebHookEvent) = 23 \<and> length setters = 23"
proof -
  have a: "entries (RazorWebhookHandler_handler (orderPaid MockAction new_RazorWebhookHandler)) =
     entries (RazorWebhookHandler_handler new_RazorWebhookHandler)"
    by (simp add: entries_def setters_def orderPaid_def new_RazorWebhookHandler_def
        RazorWebhookHandler_handler_def)
  from enumeration_and_setters_23
    [of "RazorWebhookHandler_handler (orderPaid MockAction new_RazorWebhookHandler)"
        "RazorWebhookHandler_handler new_RazorWebhookHandler"] a
  show ?thesis by blast
qed

section \<open>The setters\<close>

text \<open>
  Claim C7. Every setter replaces its own entry of the table and no other, whatever the
  callback and the table: after the setter documented for the event \<open>ev\<close> has been
  called with \<open>f\<close>, the entry listed with \<open>ev\<close> is \<open>f\<close>, and the entry listed with any
  other event \<open>ev'\<close> is what it was.
\<close>

theorem setter_replaces_only_its_entry:
  assumes "(ev, st, ent) \<in> set setters" and "(ev', st', ent') \<in> set setters"
  shows "ent' (RazorWebhookHandler_handler (st f this)) =
    (if ev' = ev then f else ent' (RazorWebhookHandler_handler this))"
  using assms(1)
  apply (simp only: setters_def list.set insert_iff empty_iff prod.inject)
  apply (elim disjE conjE)
  using assms(2)
  apply (simp_all only: setters_def list.set insert_iff empty_iff prod.inject)
  apply (elim disjE conjE; simp add: setter_defs RazorWebhookHandler_handler_def)+
  done

theorem setter_replaces_only_its_entry_witness:
  "(''refund.created'', refundCreated, \<lambda>h. refund_handlers.created (refund h)) \<in> set setters \<and>
   (''virtual_account.created'', virtualAccountCreated,
      \<lambda>h. virtual_account_handlers.created (virtual_account h)) \<in> set setters \<and>
   refund_handlers.created (refund (RazorWebhookHandler_handler
      (refundCreated (HostFn 5) numbered_registry))) = HostFn 5 \<and>
   virtual_account_handlers.created (virtual_account (RazorWebhookHandler_handler
      (refundCreated (HostFn 5) numbered_registry))) = HostFn 20 \<and>
   entries (RazorWebhookHandler_handler (refundCreated (HostFn 5) numbered_registry)) =
     (map HostFn [0..<23])[1 := HostFn 5]"
proof -
  have a: "(''refund.created'', refundCreated, \<lambda>h. refund_handlers.created (refund h))
      \<in> set setters"
    by (simp add: setters_def)
  have b: "(''virtual_account.created'', virtualAccountCreated,
      \<lambda>h. virtual_account_handlers.created (virtual_account h)) \<in> set setters"
    by (simp add: setters_def)
  have n: "virtual_account_handlers.created (virtual_account
      (RazorWebhookHandler_handler numbered_registry)) = HostFn 20"
    by (simp add: numbered_registry_def setters_def setter_defs RazorWebhookHandler_handler_def
      new_RazorWebhookHandler_def)
  have e: "entries (RazorWebhookHandler_handler (refundCreated (HostFn 5) numbered_registry)) =
     (map HostFn [0..<23])[1 := HostFn 5]"
    by (simp add: entries_def numbered_registry_def setters_def setter_defs
      RazorWebhookHandler_handler_def new_RazorWebhookHandler_def upt_rec)
  from setter_replaces_only_its_entry [OF a a, of "HostFn 5" numbered_registry]
    setter_replaces_only_its_entry [OF a b, of "HostFn 5" numbered_registry] a b n e
  show ?thesis by simp
qed

section \<open>Registration\<close>

text \<open>
  Claim C5. Registration is last-write-wins. For every event \<open>ev\<close> with its setter: a
  second registration replaces the first; after \<open>f\<close> and then \<open>g\<close> have been
  registered, the dispatch of a payload of type \<open>ev\<close> is the call of \<open>g\<close>; and when
  \<open>f\<close> is registered, the payload dispatched, \<open>g\<close> registered and the payload (still
  of type \<open>ev\<close>) dispatched again, the first dispatch is the call of \<open>f\<close> and the second
  the call of \<open>g\<close>, each on the state in which that dispatch starts.
\<close>

theorem registration_last_write_wins:
  assumes "(ev, st, ent) \<in> set setters" and "event (wh_payload (webhook w)) = ev"
  shows "st g (st f this) = st g this \<and>
    execute fns (register st g (register st f w)) =
      call fns g (wh_payload (webhook w)) (register st g (register st f w)) \<and>
    execute fns (register st f w) = call fns f (wh_payload (webhook w)) (register st f w) \<and>
    (event (wh_payload (webhook (snd (execute fns (register st f w))))) = ev \<longrightarrow>
      execute fns (register st g (snd (execute fns (register st f w)))) =
        call fns g (wh_payload (webhook (snd (execute fns (register st f w)))))
          (register st g (snd (execute fns (register st f w)))))"
proof -
  have one: "execute fns (register st f w) = call fns f (wh_payload (webhook w)) (register st f w)"
    using assms by (rule execute_after_register)
  have "event (wh_payload (webhook (register st f w))) = ev"
    using assms(2) by simp
  with assms(1) have two: "execute fns (register st g (register st f w)) =
      call fns g (wh_payload (webhook (register st f w))) (register st g (register st f w))"
    by (rule execute_after_register)
  have three: "execute fns (register st g v) = call fns g (wh_payload (webhook v)) (register st g v)"
    if "event (wh_payload (webhook v)) = ev" for v
    using assms(1) that by (rule execute_after_register)
  show ?thesis
    using setter_overwrite [OF assms(1)] one two three by simp
qed

text \<open>
  The scenario of the specification for \<^verbatim>\<open>refund.created\<close>: host function 3 (which
  rejects) is registered and the payload dispatched, then host function 4 (which
  resolves) is registered and the payload dispatched again.
\<close>

theorem registration_last_write_wins_witness:
  "(''refund.created'', refundCreated, \<lambda>h. refund_handlers.created (refund h)) \<in> set setters \<and>
   event (wh_payload (webhook (example_world ''refund.created''))) = ''refund.created'' \<and>
   execute example_host (register refundCreated (HostFn 3) (example_world ''refund.created'')) =
     (Inr (Rejected (JError ''rejected by the host'')),
      (register refundCreated (HostFn 3) (example_world ''refund.created''))\<lparr>host := [3]\<rparr>) \<and>
   execute example_host (register refundCreated (HostFn 4)
       (snd (execute example_host
          (register refundCreated (HostFn 3) (example_world ''refund.created''))))) =
     (Inr (Fulfilled (JStr ''pay_1'')),
      (register refundCreated (HostFn 4) (example_world ''refund.created''))\<lparr>host := [3, 4]\<rparr>) \<and>
   execute example_host (register refundCreated (HostFn 4)
       (register refundCreated (HostFn 3) (example_world ''refund.created''))) =
     (Inr (Fulfilled (JStr ''pay_1'')),
      (register refundCreated (HostFn 4) (example_world ''refund.created''))\<lparr>host := [4]\<rparr>)"
proof -
  have a: "(''refund.created'', refundCreated, \<lambda>h. refund_handlers.created (refund h))
      \<in> set setters"
    by (simp add: setters_def)
  have b: "event (wh_payload (webhook (example_world ''refund.created''))) = ''refund.created''"
    by (simp add: example_defs)
  note t = registration_last_write_wins [OF a b, of "HostFn 4" "HostFn 3" _ example_host]
  from t have one: "execute example_host
      (register refundCreated (HostFn 3) (example_world ''refund.created'')) =
     (Inr (Rejected (JError ''rejected by the host'')),
      (register refundCreated (HostFn 3) (example_world ''refund.created''))\<lparr>host := [3]\<rparr>)"
    by (simp add: example_defs example_host_def)
  from t have two: "execute example_host (register refundCreated (HostFn 4)
       (register refundCreated (HostFn 3) (example_world ''refund.created''))) =
     (Inr (Fulfilled (JStr ''pay_1'')),
      (register refundCreated (HostFn 4) (example_world ''refund.created''))\<lparr>host := [4]\<rparr>)"
    by (simp add: example_defs example_host_def refundCreated_def)
  have c: "event (wh_payload (webhook (snd (execute example_host
      (register refundCreated (HostFn 3) (example_world ''refund.created'')))))) = ''refund.created''"
    by (simp add: one) (simp add: example_defs)
  from t c have three: "execute example_host (register refundCreated (HostFn 4)
       (snd (execute example_host
          (register refundCreated (HostFn 3) (example_world ''refund.created''))))) =
     (Inr (Fulfilled (JStr ''pay_1'')),
      (register refundCreated (HostFn 4) (example_world ''refund.created''))\<lparr>host := [3, 4]\<rparr>)"
    by (simp add: one) (simp add: example_defs example_host_def refundCreated_def)
  from a b one two three show ?thesis by blast
qed

section \<open>The default state\<close>

lemma fresh_entries:
  "entries (RazorWebhookHandler_handler new_RazorWebhookHandler) = replicate 23 MockAction"
  by (simp add: entries_def setters_def new_RazorWebhookHandler_def RazorWebhookHandler_handler_def
      eval_nat_numeral)

lemma fresh_entry:
  assumes "(ev, st, ent) \<in> set setters"
  shows "ent (RazorWebhookHandler_handler new_RazorWebhookHandler) = MockAction"
proof -
  from assms have "ent (RazorWebhookHandler_handler new_RazorWebhookHandler)
      \<in> set (entries (RazorWebhookHandler_handler new_RazorWebhookHandler))"
    unfolding entries_def by force
  then show ?thesis
    by (simp add: fresh_entries)
qed

text \<open>
  Claim C4. In a freshly constructed registry each of the 23 entries is the default
  callback \<^verbatim>\<open>_mockAction\<close>. Called with any payload in any state, the default callback
  leaves the state as it is and returns a promise fulfilled with \<^verbatim>\<open>true\<close>, a truthy
  value. So the dispatch of a payload of any known event type on a dispatcher whose
  registry is in the default state resolves to \<^verbatim>\<open>true\<close> and changes nothing; it never
  fails for lack of a handler.
\<close>

theorem fresh_registry_dispatch_resolves:
  assumes "event (wh_payload (webhook w)) \<in> set WebHookEvent"
    and "RazorWebhook_handler (webhook w) = new_RazorWebhookHandler"
  shows "entries (RazorWebhookHandler_handler new_RazorWebhookHandler) = replicate 23 MockAction \<and>
         call fns MockAction p v = (Inr (Fulfilled (JBool True)), v) \<and>
         truthy (JBool True) \<and>
         execute fns w = (Inr (Fulfilled (JBool True)), w)"
proof -
  have mock: "call fns MockAction q u = (Inr (Fulfilled (JBool True)), u)" for q u
    by (simp add: mockAction_def)
  from assms(1) obtain st ent
    where mem: "(event (wh_payload (webhook w)), st, ent) \<in> set setters"
    by (rule known_event_entry)
  then have "execute fns w =
      call fns (ent (RazorWebhookHandler_handler (RazorWebhook_handler (webhook w))))
        (wh_payload (webhook w)) w"
    by (rule execute_entry) simp
  also have "ent (RazorWebhookHandler_handler (RazorWebhook_handler (webhook w))) = MockAction"
    using fresh_entry [OF mem] assms(2) by simp
  finally have "execute fns w = (Inr (Fulfilled (JBool True)), w)"
    using mock by simp
  with fresh_entries mock show ?thesis by simp
qed

text \<open>
  The scenario of the specification: a \<^verbatim>\<open>subscription.halted\<close> payload on a dispatcher
  with the payload and the registry that the constructor gives it, with nothing
  registered.
\<close>

theorem fresh_registry_dispatch_resolves_witness:
  "event (wh_payload (webhook (example_world ''subscription.halted''))) \<in> set WebHookEvent \<and>
   new_RazorWebhook (ArgObject (example_payload ''subscription.halted'')) =
     Inr \<lparr>wh_payload = ArgObject (wh_payload (webhook (example_world ''subscription.halted''))),
          wh_handler = wh_handler (webhook (example_world ''subscription.halted''))\<rparr> \<and>
   RazorWebhook_handler (webhook (example_world ''subscription.halted'')) =
     new_RazorWebhookHandler \<and>
   execute example_host (example_world ''subscription.halted'') =
     (Inr (Fulfilled (JBool True)), example_world ''subscription.halted'')"
proof -
  have a: "event (wh_payload (webhook (example_world ''subscription.halted'')))
      \<in> set WebHookEvent"
    by (simp add: example_world_def example_payload_def WebHookEvent_def)
  have b: "RazorWebhook_handler (webhook (example_world ''subscription.halted'')) =
      new_RazorWebhookHandler"
    by (simp add: example_world_def RazorWebhook_handler_def)
  have c: "new_RazorWebhook (ArgObject (example_payload ''subscription.halted'')) =
     Inr \<lparr>wh_payload = ArgObject (wh_payload (webhook (example_world ''subscription.halted''))),
          wh_handler = wh_handler (webhook (example_world ''subscription.halted''))\<rparr>"
    by (simp add: new_RazorWebhook_def example_world_def)
  from fresh_registry_dispatch_resolves [OF a b] a b c show ?thesis by simp
qed

section \<open>Construction\<close>

text \<open>
  Claim C6, as stated, has the constructor refuse a null or absent payload and nothing
  else: an argument that is not null is accepted. The guard \<^verbatim>\<open>!payload\<close> is a test of
  truthiness. The number 0 is neither \<^verbatim>\<open>null\<close> nor \<^verbatim>\<open>undefined\<close>, and the constructor
  throws for it, as it does for the empty string, for \<^verbatim>\<open>false\<close> and for \<^verbatim>\<open>NaN\<close>.
\<close>

theorem constructor_refuses_falsy_values:
  "ArgValue (JNum 0) \<noteq> ArgValue JNull \<and>
   ArgValue (JNum 0) \<noteq> ArgValue JUndefined \<and>
   new_RazorWebhook (ArgValue (JNum 0)) = Inl (JError ''`payload` is mandatory'') \<and>
   new_RazorWebhook (ArgValue (JStr [])) = Inl (JError ''`payload` is mandatory'') \<and>
   new_RazorWebhook (ArgValue (JBool False)) = Inl (JError ''`payload` is mandatory'') \<and>
   new_RazorWebhook (ArgValue JNaN) = Inl (JError ''`payload` is mandatory'')"
  by (simp add: new_RazorWebhook_def)

text \<open>
  Claim C6, amended. The constructor throws an \<^verbatim>\<open>Error\<close>, synchronously and without
  returning a dispatcher through which a handler could be reached, when it is given
  \<^verbatim>\<open>null\<close> or no payload, and likewise when it is given any other falsy value
  (\<^verbatim>\<open>false\<close>, 0, \<^verbatim>\<open>NaN\<close>, the empty string). This test of truthiness is its only
  check: it throws for these six values and for nothing else, and every other argument
  is stored as it is in a new dispatcher with a fresh registry, in particular every
  payload object, whatever its fields hold.
\<close>

theorem constructor_requires_truthy_payload:
  "new_RazorWebhook (ArgValue JNull) = Inl (JError ''`payload` is mandatory'') \<and>
   new_RazorWebhook (ArgValue JUndefined) = Inl (JError ''`payload` is mandatory'') \<and>
   new_RazorWebhook (ArgObject p) =
     Inr \<lparr>wh_payload = ArgObject p, wh_handler = new_RazorWebhookHandler\<rparr> \<and>
   ((\<exists>e. new_RazorWebhook arg = Inl e) =
      (arg \<in> {ArgValue JUndefined, ArgValue JNull, ArgValue (JBool False), ArgValue (JNum 0),
               ArgValue JNaN, ArgValue (JStr [])})) \<and>
   (new_RazorWebhook arg = Inl (JError ''`payload` is mandatory'') \<or>
    new_RazorWebhook arg = Inr \<lparr>wh_payload = arg, wh_handler = new_RazorWebhookHandler\<rparr>)"
proof -
  have throws: "(\<exists>e. new_RazorWebhook arg = Inl e) = (\<not> arg_truthy arg)"
    by (simp add: new_RazorWebhook_def)
  have falsy: "(\<not> arg_truthy arg) =
      (arg \<in> {ArgValue JUndefined, ArgValue JNull, ArgValue (JBool False), ArgValue (JNum 0),
               ArgValue JNaN, ArgValue (JStr [])})"
  proof (cases arg)
    case (ArgValue v)
    then show ?thesis by (cases v) auto
  next
    case (ArgObject q)
    then show ?thesis by simp
  qed
  have either: "new_RazorWebhook arg = Inl (JError ''`payload` is mandatory'') \<or>
      new_RazorWebhook arg = Inr \<lparr>wh_payload = arg, wh_handler = new_RazorWebhookHandler\<rparr>"
    by (simp add: new_RazorWebhook_def)
  have fixed: "new_RazorWebhook (ArgValue JNull) = Inl (JError ''`payload` is mandatory'')"
    "new_RazorWebhook (ArgValue JUndefined) = Inl (JError ''`payload` is mandatory'')"
    "new_RazorWebhook (ArgObject p) =
      Inr \<lparr>wh_payload = ArgObject p, wh_handler = new_RazorWebhookHandler\<rparr>"
    by (simp_all add: new_RazorWebhook_def)
  from fixed throws falsy either show ?thesis
    by (simp only: simp_thms)
qed

section \<open>The dispute events\<close>

lemma dispute_setters:
  assumes "(ev, st, ent) \<in> set setters" and "prefix ''payment.dispute.'' ev"
  shows "(ev, st, ent) \<in> set
    [(''payment.dispute.created'', disputeCreated, \<lambda>h. dispute_handlers.created (dispute h)),
     (''payment.dispute.won'', disputeWon, \<lambda>h. won (dispute h)),
     (''payment.dispute.lost'', disputeLost, \<lambda>h. lost (dispute h)),
     (''payment.dispute.closed'', disputeClosed, \<lambda>h. dispute_handlers.closed (dispute h))]"
  using assms
  apply (simp only: setters_def list.set insert_iff empty_iff prod.inject)
  apply (elim disjE conjE)
  apply simp_all
  done

lemma dispute_names:
  "map fst (filter (\<lambda>(ev, st, ent). prefix ''payment.dispute.'' ev) setters) =
    [''payment.dispute.created'', ''payment.dispute.won'', ''payment.dispute.lost'',
     ''payment.dispute.closed'']"
  by (simp add: setters_def)

text \<open>
  Claim C9. Four event types begin with \<^verbatim>\<open>payment.dispute.\<close> (created, won, lost,
  closed). Each is listed with the setter \<^verbatim>\<open>disputeCreated\<close>, \<^verbatim>\<open>disputeWon\<close>,
  \<^verbatim>\<open>disputeLost\<close> or \<^verbatim>\<open>disputeClosed\<close> and an entry of the category \<^verbatim>\<open>dispute\<close> of
  the table; the dispatch of such an event is the call of that entry, which depends on
  the category \<^verbatim>\<open>dispute\<close> alone; and a callback registered afterwards with a setter of
  the category \<^verbatim>\<open>payment\<close> is not the one called: the dispatch still is the call of the
  callback registered with the dispute setter.
\<close>

theorem dispute_events_use_dispute_category:
  assumes "(ev, st, ent) \<in> set setters" and "prefix ''payment.dispute.'' ev"
    and "event (wh_payload (webhook w)) = ev"
    and "pst \<in> {paymentAuthorized, paymentCaptured, paymentFailed}"
  shows "map fst (filter (\<lambda>(ev, st, ent). prefix ''payment.dispute.'' ev) setters) =
      [''payment.dispute.created'', ''payment.dispute.won'', ''payment.dispute.lost'',
       ''payment.dispute.closed''] \<and>
    (ev, st, ent) \<in> set
      [(''payment.dispute.created'', disputeCreated, \<lambda>h. dispute_handlers.created (dispute h)),
       (''payment.dispute.won'', disputeWon, \<lambda>h. won (dispute h)),
       (''payment.dispute.lost'', disputeLost, \<lambda>h. lost (dispute h)),
       (''payment.dispute.closed'', disputeClosed, \<lambda>h. dispute_handlers.closed (dispute h))] \<and>
    execute fns w =
      call fns (ent (RazorWebhookHandler_handler (RazorWebhook_handler (webhook w))))
        (wh_payload (webhook w)) w \<and>
    (dispute h = dispute h' \<longrightarrow> ent h = ent h') \<and>
    execute fns (register pst g (register st f w)) =
      call fns f (wh_payload (webhook w)) (register pst g (register st f w))"
proof -
  note four = dispute_setters [OF assms(1,2)]
  have route: "execute fns w =
      call fns (ent (RazorWebhookHandler_handler (RazorWebhook_handler (webhook w))))
        (wh_payload (webhook w)) w"
    using assms(1,3) by (rule execute_entry)
  have dep: "dispute h = dispute h' \<longrightarrow> ent h = ent h'"
    using four by auto
  have pay: "ent (RazorWebhookHandler_handler (pst g x)) = ent (RazorWebhookHandler_handler x)"
    for x
    using four assms(4) by (auto simp: setter_defs RazorWebhookHandler_handler_def)
  have "event (wh_payload (webhook (register pst g (register st f w)))) = ev"
    using assms(3) by simp
  with assms(1) have "execute fns (register pst g (register st f w)) =
      call fns (ent (RazorWebhookHandler_handler
          (RazorWebhook_handler (webhook (register pst g (register st f w))))))
        (wh_payload (webhook (register pst g (register st f w))))
        (register pst g (register st f w))"
    by (rule execute_entry)
  then have after: "execute fns (register pst g (register st f w)) =
      call fns f (wh_payload (webhook w)) (register pst g (register st f w))"
    using pay setter_own [OF assms(1)] by simp
  from dispute_names four route dep after show ?thesis by blast
qed

theorem dispute_events_use_dispute_category_witness:
  "(''payment.dispute.won'', disputeWon, \<lambda>h. won (dispute h)) \<in> set setters \<and>
   prefix ''payment.dispute.'' ''payment.dispute.won'' \<and>
   event (wh_payload (webhook (example_world ''payment.dispute.won''))) = ''payment.dispute.won'' \<and>
   paymentCaptured \<in> {paymentAuthorized, paymentCaptured, paymentFailed} \<and>
   execute example_host dispute_world =
     (Inr (Fulfilled (JStr ''pay_1'')), dispute_world\<lparr>host := [8]\<rparr>)"
proof -
  have a: "(''payment.dispute.won'', disputeWon, \<lambda>h. won (dispute h)) \<in> set setters"
    by (simp add: setters_def)
  have b: "prefix ''payment.dispute.'' ''payment.dispute.won''"
    by simp
  have c: "event (wh_payload (webhook (example_world ''payment.dispute.won''))) =
      ''payment.dispute.won''"
    by (simp add: example_defs)
  have d: "paymentCaptured \<in> {paymentAuthorized, paymentCaptured, paymentFailed}"
    by simp
  from dispute_events_use_dispute_category [OF a b c d, of example_host _ _ "HostFn 6" "HostFn 8"]
  have "execute example_host dispute_world =
      call example_host (HostFn 8) (wh_payload (webhook (example_world ''payment.dispute.won'')))
        dispute_world"
    by (simp add: dispute_world_def)
  then have "execute example_host dispute_world =
     (Inr (Fulfilled (JStr ''pay_1'')), dispute_world\<lparr>host := [8]\<rparr>)"
    by (simp add: example_host_def dispute_world_def example_defs)
  with a b c d show ?thesis by blast
qed

section \<open>What \<^verbatim>\<open>execute\<close> leaves alone\<close>

lemma unknown_event_no_setter:
  "(map_of setters ev = None) = (ev \<notin> set WebHookEvent)"
  using setters_names by (simp add: map_of_eq_None_iff)

text \<open>
  Claim C10. \<^verbatim>\<open>execute()\<close> assigns neither to the payload nor to the table. For an event
  type without an entry it returns the rejection in the state in which it started; for
  an event type with an entry, its completion and the state it ends in are those of the
  one call of the callback, made in the state in which it started. So whenever the
  callbacks, called with this payload in this state, leave the dispatcher (payload and
  table) as it is, so does \<^verbatim>\<open>execute()\<close>, whether the promise is fulfilled or rejected or
  the callback throws.
\<close>

theorem execute_adds_no_mutation:
  "(case map_of setters (event (wh_payload (webhook w))) of
      None \<Rightarrow> snd (execute fns w) = w
    | Some (st, ent) \<Rightarrow>
        execute fns w =
          call fns (ent (RazorWebhookHandler_handler (RazorWebhook_handler (webhook w))))
            (wh_payload (webhook w)) w) \<and>
   ((\<forall>fn. webhook (snd (call fns fn (wh_payload (webhook w)) w)) = webhook w) \<longrightarrow>
      webhook (snd (execute fns w)) = webhook w)"
proof (cases "map_of setters (event (wh_payload (webhook w)))")
  case None
  then have "event (wh_payload (webhook w)) \<notin> set WebHookEvent"
    by (simp add: unknown_event_no_setter)
  then have "execute fns w =
    (Inr (Rejected (JStr ''Payload event is currently isn't supported by RazorWebhook class.'')), w)"
    by (rule execute_unsupported)
  with None show ?thesis by simp
next
  case (Some a)
  obtain st ent where a: "a = (st, ent)"
    by (cases a)
  with Some have "(event (wh_payload (webhook w)), st, ent) \<in> set setters"
    by (auto dest: map_of_SomeD)
  then have "execute fns w =
      call fns (ent (RazorWebhookHandler_handler (RazorWebhook_handler (webhook w))))
        (wh_payload (webhook w)) w"
    by (rule execute_entry) simp
  with Some a show ?thesis by simp
qed

theorem execute_adds_no_mutation_witness:
  "(\<forall>fn. webhook (snd (call example_host fn (wh_payload (webhook captured_world)) captured_world)) =
      webhook captured_world) \<and>
   webhook (snd (execute example_host captured_world)) = webhook captured_world \<and>
   host (snd (execute example_host captured_world)) = [4]"
proof -
  have a: "\<forall>fn. webhook (snd (call example_host fn (wh_payload (webhook captured_world))
      captured_world)) = webhook captured_world"
  proof
    fix fn
    show "webhook (snd (call example_host fn (wh_payload (webhook captured_world))
      captured_world)) = webhook captured_world"
      by (cases fn) (simp_all add: mockAction_def example_host_def)
  qed
  have b: "host (snd (execute example_host captured_world)) = [4]"
    by (simp add: execute_def example_defs example_host_def paymentCaptured_def paymentFailed_def)
  from execute_adds_no_mutation [where fns = example_host and w = captured_world] a b
  show ?thesis by blast
qed

text \<open>
  The premise on the callbacks is needed, and the change is theirs: with a host whose
  functions assign to the dispatcher, the state after \<^verbatim>\<open>execute()\<close> is the state the
  callback left, payload and table changed.
\<close>

lemma meddling_callback_changes_dispatcher:
  "execute meddling_host captured_world =
     call meddling_host (HostFn 4) (wh_payload (webhook captured_world)) captured_world \<and>
   event (wh_payload (webhook (snd (execute meddling_host captured_world)))) = ''order.paid'' \<and>
   order_handlers.paid (order (RazorWebhookHandler_handler (RazorWebhook_handler
     (webhook (snd (execute meddling_host captured_world)))))) = HostFn 5 \<and>
   webhook (snd (execute meddling_host captured_world)) \<noteq> webhook captured_world"
  by (simp add: execute_def example_defs meddling_host_def paymentCaptured_def paymentFailed_def
      orderPaid_def)

end
